theory Spec2Isabelle
  imports Main "HOL-Library.Sublist"
begin

section \<open>The world the scripts run in\<close>

text \<open>
  The three scripts touch the outside only through files, the standard output and the
  calls they make into the \<^verbatim>\<open>pgpy\<close> library. A world holds the files (path to content),
  what has been printed so far, what the random source of the operating system gives
  during the run, and the sequence of external calls made so far. The last field is a log
  kept beside the program: it records each call as it is made, so that statements such as
  "one decrypt operation" can be read off a run.
\<close>

type_synonym path = string

datatype call =
    KeyFromFile path
  | MessageFromFile path
  | MessageNew string
  | Encrypt
  | Decrypt
  | OpenWrite path
  | PrintStdout
  | PrintFile path
  | JsonLoads

record world =
  files :: "path \<rightharpoonup> string"
  stdout :: string
  urandom :: nat
  calls :: "call list"

text \<open>
  An exception is a value. \<^verbatim>\<open>open\<close> on a path that does not exist raises Python's
  \<^verbatim>\<open>FileNotFoundError\<close>; every other exception of these scripts comes out of the
  library, whose own error type is left open.
\<close>

datatype 'e exn = FileNotFoundError path | LibraryError 'e

type_synonym ('e, 'a) py = "world \<Rightarrow> ('e exn + 'a) \<times> world"

definition andThen :: "('e, 'a) py \<Rightarrow> ('a \<Rightarrow> ('e, 'b) py) \<Rightarrow> ('e, 'b) py" where
  "andThen m f w = (case m w of (Inl e, w') \<Rightarrow> (Inl e, w') | (Inr a, w') \<Rightarrow> f a w')"

definition log :: "call \<Rightarrow> world \<Rightarrow> world" where
  "log c w = w\<lparr>calls := calls w @ [c]\<rparr>"

definition lift :: "'e + 'a \<Rightarrow> world \<Rightarrow> ('e exn + 'a) \<times> world" where
  "lift r w = (case r of Inl e \<Rightarrow> (Inl (LibraryError e), w) | Inr a \<Rightarrow> (Inr a, w))"

section \<open>The library interface\<close>

text \<open>
  \<^verbatim>\<open>pgpy\<close> is not part of the repository, so the functions the scripts call are taken as
  a parameter: a record of functions over a key type \<open>'k\<close>, a message type \<open>'m\<close>, the type
  \<open>'x\<close> of the second component that \<^verbatim>\<open>PGPKey.from_file\<close> returns, and an error type \<open>'e\<close>.
  \<^verbatim>\<open>from_file\<close> is reading the named file and parsing its content; the parsing is the
  library's \<^verbatim>\<open>from_blob\<close>. Each call may fail; the attribute \<^verbatim>\<open>.message\<close> and \<^verbatim>\<open>str\<close> are
  taken as total. \<^verbatim>\<open>pubkey.encrypt(message)\<close> is called without a session key, so the
  library draws a fresh one from the random source: \<open>PGPKey_encrypt\<close> takes what the source
  gives as its first argument. The other functions are functions of their arguments.
\<close>

record ('k, 'x, 'm, 'e) pgpy =
  PGPKey_from_blob :: "string \<Rightarrow> 'e + 'k \<times> 'x"
  PGPMessage_from_blob :: "string \<Rightarrow> 'e + 'm"
  PGPMessage_new :: "string \<Rightarrow> 'e + 'm"
  PGPKey_encrypt :: "nat \<Rightarrow> 'k \<Rightarrow> 'm \<Rightarrow> 'e + 'm"
  PGPKey_decrypt :: "'k \<Rightarrow> 'm \<Rightarrow> 'e + 'm"
  PGPMessage_message :: "'m \<Rightarrow> string"
  PGPMessage_str :: "'m \<Rightarrow> string"

definition key_from_file :: "('k, 'x, 'm, 'e) pgpy \<Rightarrow> path \<Rightarrow> ('e, 'k \<times> 'x) py" where
  "key_from_file L p w =
     (case files w p of
        None \<Rightarrow> (Inl (FileNotFoundError p), log (KeyFromFile p) w)
      | Some c \<Rightarrow> lift (PGPKey_from_blob L c) (log (KeyFromFile p) w))"

definition message_from_file :: "('k, 'x, 'm, 'e) pgpy \<Rightarrow> path \<Rightarrow> ('e, 'm) py" where
  "message_from_file L p w =
     (case files w p of
        None \<Rightarrow> (Inl (FileNotFoundError p), log (MessageFromFile p) w)
      | Some c \<Rightarrow> lift (PGPMessage_from_blob L c) (log (MessageFromFile p) w))"

definition message_new :: "('k, 'x, 'm, 'e) pgpy \<Rightarrow> string \<Rightarrow> ('e, 'm) py" where
  "message_new L s w = lift (PGPMessage_new L s) (log (MessageNew s) w)"

definition key_encrypt :: "('k, 'x, 'm, 'e) pgpy \<Rightarrow> 'k \<Rightarrow> 'm \<Rightarrow> ('e, 'm) py" where
  "key_encrypt L k m w = lift (PGPKey_encrypt L (urandom w) k m) (log Encrypt w)"

definition key_decrypt :: "('k, 'x, 'm, 'e) pgpy \<Rightarrow> 'k \<Rightarrow> 'm \<Rightarrow> ('e, 'm) py" where
  "key_decrypt L k m w = lift (PGPKey_decrypt L k m) (log Decrypt w)"

section \<open>Python's own output calls\<close>

definition newline :: string where
  "newline = [CHR 0x0A]"

text \<open>\<^verbatim>\<open>print(s)\<close>: the text and a newline go to the standard output.\<close>

definition print :: "string \<Rightarrow> ('e, unit) py" where
  "print s w = (Inr (), log PrintStdout (w\<lparr>stdout := stdout w @ s @ newline\<rparr>))"

text \<open>
  \<^verbatim>\<open>open(p, 'w')\<close>: the file is created or cut to length zero; the handle is the path.
  The store has no permissions, so opening for writing does not fail here.
\<close>

definition open_w :: "path \<Rightarrow> ('e, path) py" where
  "open_w p w = (Inr p, log (OpenWrite p) (w\<lparr>files := (files w)(p \<mapsto> [])\<rparr>))"

text \<open>\<^verbatim>\<open>print(s, file=f)\<close>: the text and a newline are added at the end of the file.\<close>

definition print_file :: "path \<Rightarrow> string \<Rightarrow> ('e, unit) py" where
  "print_file f s w =
     (Inr (), log (PrintFile f)
        (w\<lparr>files := (files w)(f \<mapsto> (case files w f of None \<Rightarrow> [] | Some c \<Rightarrow> c) @ s @ newline)\<rparr>))"

section \<open>The three scripts\<close>

subsection \<open>\<^verbatim>\<open>keys_from_files/pgp_decrypter.py\<close>\<close>

definition decrypter_pgp_msg_file :: path where
  "decrypter_pgp_msg_file = ''p1_armored_message.txt''"

definition decrypter_main :: "('k, 'x, 'm, 'e) pgpy \<Rightarrow> ('e, unit) py" where
  "decrypter_main L =
     andThen (key_from_file L ''./key_files/person_two/sec.asc'') (\<lambda>(privkey, _).
     andThen (message_from_file L decrypter_pgp_msg_file) (\<lambda>crypt_msg.
     andThen (key_decrypt L privkey crypt_msg) (\<lambda>decrypted.
     let msg = PGPMessage_message L decrypted in
     print msg)))"

subsection \<open>\<^verbatim>\<open>pgp_encoder.py\<close>\<close>

definition encoder_pgp_msg_file :: path where
  "encoder_pgp_msg_file = ''p1_armored_message.txt''"

definition encoder_main :: "('k, 'x, 'm, 'e) pgpy \<Rightarrow> ('e, unit) py" where
  "encoder_main L =
     andThen (key_from_file L ''./key_files/person_two/sec.asc'') (\<lambda>(privkey, _).
     andThen (message_from_file L encoder_pgp_msg_file) (\<lambda>crypt_msg.
     andThen (key_decrypt L privkey crypt_msg) (\<lambda>decrypted.
     let msg = PGPMessage_message L decrypted in
     print msg)))"

subsection \<open>\<^verbatim>\<open>pgp_encrypter.py\<close>\<close>

definition encrypter_main :: "('k, 'x, 'm, 'e) pgpy \<Rightarrow> ('e, unit) py" where
  "encrypter_main L =
     (let encrypted_msg_file = ''encrypted_message.txt'';
          public_key_file = ''./key_files/pub.asc'';
          secret_msg = ''Secret message from python encoder script''
      in
        andThen (key_from_file L public_key_file) (\<lambda>(pubkey, _).
        andThen (message_new L secret_msg) (\<lambda>message.
        andThen (key_encrypt L pubkey message) (\<lambda>armored_msg.
        andThen (open_w encrypted_msg_file) (\<lambda>f.
        print_file f (PGPMessage_str L armored_msg))))))"

section \<open>Reading a run\<close>

text \<open>The calls a run added to the log, and the text it added to the standard output.\<close>

definition new_calls :: "world \<Rightarrow> world \<Rightarrow> call list" where
  "new_calls w w' = drop (length (calls w)) (calls w')"

definition printed :: "world \<Rightarrow> world \<Rightarrow> string" where
  "printed w w' = drop (length (stdout w)) (stdout w')"




text \<open>
  A library that differs from \<open>L\<close> only in the second component of what
  \<^verbatim>\<open>PGPKey.from_file\<close> returns.
\<close>

definition replace_others :: "('x \<Rightarrow> 'y) \<Rightarrow> ('k, 'x, 'm, 'e) pgpy \<Rightarrow> ('k, 'y, 'm, 'e) pgpy" where
  "replace_others g L =
     \<lparr>PGPKey_from_blob = (\<lambda>c. case PGPKey_from_blob L c of
                                  Inl e \<Rightarrow> Inl e | Inr (k, x) \<Rightarrow> Inr (k, g x)),
      PGPMessage_from_blob = PGPMessage_from_blob L,
      PGPMessage_new = PGPMessage_new L,
      PGPKey_encrypt = PGPKey_encrypt L,
      PGPKey_decrypt = PGPKey_decrypt L,
      PGPMessage_message = PGPMessage_message L,
      PGPMessage_str = PGPMessage_str L\<rparr>"

section \<open>The library as the specification describes it\<close>

text \<open>
  The specification names four operations of the external OpenPGP engine and the error with
  which each fails. The engine itself (what a well-formed key is, which key matches which
  message, how a message is sealed and armored) stays a parameter: a record of the notions
  the four sentences speak of, over a key type \<open>'k\<close> and a message type \<open>'m\<close>. What the
  sentences leave open stays with the engine too: whether sealing for a key that has an
  encryption subkey can still fail (\<open>seal\<close> returns an error or a ciphertext), and which error
  is reported for a key that does not match and to which a key error applies as well
  (\<open>key_error_first\<close>).
\<close>

datatype pgp_error =
    KeyFormatError
  | MessageFormatError
  | EncryptionError
  | DecryptionError
  | WrongKeyError
  | PassphraseError

datatype key_problem = WrongKey | Passphrase

record ('k, 'm) openpgp =
  parse_key :: "string \<Rightarrow> 'k option"
  parse_message :: "string \<Rightarrow> 'm option"
  literal :: "string \<Rightarrow> 'm"
  has_encryption_subkey :: "'k \<Rightarrow> bool"
  seal :: "nat \<Rightarrow> 'k \<Rightarrow> 'm \<Rightarrow> pgp_error + 'm"
  key_matches :: "'k \<Rightarrow> 'm \<Rightarrow> bool"
  key_problem :: "'k \<Rightarrow> 'm \<Rightarrow> key_problem option"
  key_error_first :: bool
  unseal :: "'k \<Rightarrow> 'm \<Rightarrow> 'm"
  text_of :: "'m \<Rightarrow> string"
  armor :: "'m \<Rightarrow> string"

text \<open>
  Modelled from the spec: \<^verbatim>\<open>loadKey(path) -> KeyHandle\<close>, the parsing done by
  \<^verbatim>\<open>pgpy.PGPKey.from_file\<close>, whose code is not in the repository. "Parses an armored or
  binary key file, fails with KeyFormatError on malformed input": content that the engine
  does not parse as a key is malformed.
\<close>

definition loadKey :: "('k, 'm) openpgp \<Rightarrow> string \<Rightarrow> pgp_error + 'k" where
  "loadKey E c = (case parse_key E c of None \<Rightarrow> Inl KeyFormatError | Some k \<Rightarrow> Inr k)"

text \<open>
  Modelled from the spec: \<^verbatim>\<open>loadMessage(path) -> MessageHandle\<close>, the parsing done by
  \<^verbatim>\<open>pgpy.PGPMessage.from_file\<close>, whose code is not in the repository. "Parses an armored
  ciphertext file, fails with MessageFormatError on malformed input."
\<close>

definition loadMessage :: "('k, 'm) openpgp \<Rightarrow> string \<Rightarrow> pgp_error + 'm" where
  "loadMessage E c =
     (case parse_message E c of None \<Rightarrow> Inl MessageFormatError | Some m \<Rightarrow> Inr m)"

text \<open>
  Modelled from the spec: \<^verbatim>\<open>encrypt(KeyHandle, plaintext) -> ArmoredCiphertext\<close>, the
  method \<^verbatim>\<open>encrypt\<close> of a \<^verbatim>\<open>pgpy\<close> key, whose code is not in the repository. "Fails with
  EncryptionError if the key lacks an encryption-capable subkey." The sentence says no
  more: for a key that has such a subkey the outcome is the engine's \<open>seal\<close>, an error or the
  ciphertext, under the session key \<open>r\<close> drawn from the random source. The plaintext is the
  message object made by \<^verbatim>\<open>PGPMessage.new\<close>; the armored text of the result is \<open>armor\<close> of
  it.
\<close>

definition encrypt :: "('k, 'm) openpgp \<Rightarrow> nat \<Rightarrow> 'k \<Rightarrow> 'm \<Rightarrow> pgp_error + 'm" where
  "encrypt E r k m =
     (if has_encryption_subkey E k then seal E r k m else Inl EncryptionError)"

text \<open>
  The key can decrypt the session key of the ciphertext: the message is encrypted to it
  (\<open>key_matches\<close>) and no key error applies to it (it is of the right kind and not locked).
\<close>

definition can_decrypt :: "('k, 'm) openpgp \<Rightarrow> 'k \<Rightarrow> 'm \<Rightarrow> bool" where
  "can_decrypt E k m = (key_matches E k m \<and> key_problem E k m = None)"

fun key_error :: "key_problem \<Rightarrow> pgp_error" where
  "key_error WrongKey = WrongKeyError"
| "key_error Passphrase = PassphraseError"

text \<open>
  Modelled from the spec: \<^verbatim>\<open>decrypt(KeyHandle, MessageHandle) -> plaintext\<close>, the method
  \<^verbatim>\<open>decrypt\<close> of a \<^verbatim>\<open>pgpy\<close> key, whose code is not in the repository. "Fails with
  DecryptionError if the key does not match, or WrongKeyError/PassphraseError as
  applicable." The sentence names three failures and no order among them. When a key error
  applies is the engine's \<open>key_problem\<close>. A key that does not match and has no key error
  gives DecryptionError; a key that matches and has a key error gives that error; for a key
  that does not match and has a key error, the engine's \<open>key_error_first\<close> says which of
  the two is reported. The plaintext is \<open>text_of\<close> of the result.
\<close>

definition decrypt :: "('k, 'm) openpgp \<Rightarrow> 'k \<Rightarrow> 'm \<Rightarrow> pgp_error + 'm" where
  "decrypt E k m =
     (case key_problem E k m of
        None \<Rightarrow> (if key_matches E k m then Inr (unseal E k m) else Inl DecryptionError)
      | Some p \<Rightarrow>
          (if key_matches E k m \<or> key_error_first E then Inl (key_error p)
           else Inl DecryptionError))"

text \<open>
  Modelled from the spec: the \<^verbatim>\<open>pgpy\<close> functions the scripts call, put together from the
  four operations above. \<^verbatim>\<open>PGPKey.from_file\<close> returns a pair of which the scripts drop the
  second component; it is \<open>()\<close> here.
\<close>

definition spec_pgpy :: "('k, 'm) openpgp \<Rightarrow> ('k, unit, 'm, pgp_error) pgpy" where
  "spec_pgpy E =
     \<lparr>PGPKey_from_blob = (\<lambda>c. case loadKey E c of Inl e \<Rightarrow> Inl e | Inr k \<Rightarrow> Inr (k, ())),
      PGPMessage_from_blob = loadMessage E,
      PGPMessage_new = (\<lambda>s. Inr (literal E s)),
      PGPKey_encrypt = encrypt E,
      PGPKey_decrypt = decrypt E,
      PGPMessage_message = text_of E,
      PGPMessage_str = armor E\<rparr>"

section \<open>A small engine and a few worlds to run the scripts on\<close>

text \<open>
  A key is a number; a message is a recipient's number, a session key and a text. Key 0 has
  no encryption subkey; key 3 is locked by a passphrase; key 4 is a secret key: it has an
  encryption subkey, and the engine still refuses to encrypt with it. The file content
  \<^verbatim>\<open>KEY n\<close> is key \<open>n\<close>. The armored text of a message shows the recipient, the session key
  (as that many \<^verbatim>\<open>+\<close> signs) and the text. A key error is reported before a mismatch.
\<close>

definition example_engine :: "(nat, nat \<times> nat \<times> string) openpgp" where
  "example_engine =
     \<lparr>parse_key = (\<lambda>c. if c = ''KEY 0'' then Some 0 else if c = ''KEY 2'' then Some 2
                         else if c = ''KEY 3'' then Some 3
                         else if c = ''KEY 4'' then Some 4 else None),
      parse_message = (\<lambda>c. if c = ''ARMORED 2 hello'' then Some (2, 0, ''hello'')
                             else if c = ''ARMORED 3 hello'' then Some (3, 0, ''hello'')
                             else None),
      literal = (\<lambda>s. (0, 0, s)),
      has_encryption_subkey = (\<lambda>k. k \<noteq> 0),
      seal = (\<lambda>r k m. if k = 4 then Inl EncryptionError else Inr (k, r, snd (snd m))),
      key_matches = (\<lambda>k m. k = fst m),
      key_problem = (\<lambda>k m. if k = 3 then Some Passphrase else None),
      key_error_first = True,
      unseal = (\<lambda>k m. (0, 0, snd (snd m))),
      text_of = (\<lambda>m. snd (snd m)),
      armor = (\<lambda>m. ''ARMORED '' @ (if fst m = 3 then ''3 '' else ''2 '')
                       @ replicate (fst (snd m)) (CHR ''+'') @ snd (snd m))\<rparr>"

definition example_world :: "string \<Rightarrow> string \<Rightarrow> world" where
  "example_world key_text message_text =
     \<lparr>files = [''./key_files/person_two/sec.asc'' \<mapsto> key_text,
               ''./key_files/pub.asc'' \<mapsto> key_text,
               ''p1_armored_message.txt'' \<mapsto> message_text],
      stdout = [],
      urandom = 0,
      calls = []\<rparr>"

definition empty_world :: world where
  "empty_world = \<lparr>files = Map.empty, stdout = [], urandom = 0, calls = []\<rparr>"

section \<open>Runs of the scripts, step by step\<close>

lemmas run_defs = andThen_def key_from_file_def message_from_file_def message_new_def
  key_encrypt_def key_decrypt_def lift_def log_def print_def open_w_def print_file_def

lemmas decrypter_defs = decrypter_main_def decrypter_pgp_msg_file_def run_defs

lemmas encrypter_defs = encrypter_main_def run_defs

text \<open>A decrypting run in which every call returns.\<close>

lemma decrypter_main_ok:
  assumes "files w ''./key_files/person_two/sec.asc'' = Some kc"
    and "PGPKey_from_blob L kc = Inr (k, x)"
    and "files w ''p1_armored_message.txt'' = Some mc"
    and "PGPMessage_from_blob L mc = Inr m"
    and "PGPKey_decrypt L k m = Inr d"
  shows "decrypter_main L w =
      (Inr (), w\<lparr>stdout := stdout w @ PGPMessage_message L d @ newline,
                 calls := calls w @ [KeyFromFile ''./key_files/person_two/sec.asc'',
                   MessageFromFile ''p1_armored_message.txt'', Decrypt, PrintStdout]\<rparr>)"
  using assms by (simp add: decrypter_defs)

text \<open>A decrypting run ends well only if every call returned.\<close>

lemma decrypter_main_Inr:
  assumes "fst (decrypter_main L w) = Inr ()"
  shows "\<exists>kc k x mc m d. files w ''./key_files/person_two/sec.asc'' = Some kc
     \<and> PGPKey_from_blob L kc = Inr (k, x)
     \<and> files w ''p1_armored_message.txt'' = Some mc
     \<and> PGPMessage_from_blob L mc = Inr m
     \<and> PGPKey_decrypt L k m = Inr d"
  using assms
  by (auto simp: decrypter_defs split: option.splits sum.splits prod.splits)

text \<open>The three places where a decrypting run can stop.\<close>

lemma decrypter_main_no_key:
  assumes "files w ''./key_files/person_two/sec.asc'' = None"
  shows "decrypter_main L w =
      (Inl (FileNotFoundError ''./key_files/person_two/sec.asc''),
       w\<lparr>calls := calls w @ [KeyFromFile ''./key_files/person_two/sec.asc'']\<rparr>)"
  using assms by (simp add: decrypter_defs)

lemma decrypter_main_bad_key:
  assumes "files w ''./key_files/person_two/sec.asc'' = Some kc"
    and "PGPKey_from_blob L kc = Inl e"
  shows "decrypter_main L w =
      (Inl (LibraryError e),
       w\<lparr>calls := calls w @ [KeyFromFile ''./key_files/person_two/sec.asc'']\<rparr>)"
  using assms by (simp add: decrypter_defs)

lemma decrypter_main_bad_message:
  assumes "files w ''./key_files/person_two/sec.asc'' = Some kc"
    and "PGPKey_from_blob L kc = Inr (k, x)"
    and "files w ''p1_armored_message.txt'' = Some mc"
    and "PGPMessage_from_blob L mc = Inl e"
  shows "decrypter_main L w =
      (Inl (LibraryError e),
       w\<lparr>calls := calls w @ [KeyFromFile ''./key_files/person_two/sec.asc'',
                   MessageFromFile ''p1_armored_message.txt'']\<rparr>)"
  using assms by (simp add: decrypter_defs)


text \<open>What no decrypting run changes, and the calls it can make.\<close>

lemma decrypter_main_files: "files (snd (decrypter_main L w)) = files w"
  by (auto simp: decrypter_defs split: option.splits sum.splits prod.splits)

lemma decrypter_main_calls_prefix:
  "prefix (new_calls w (snd (decrypter_main L w)))
     [KeyFromFile ''./key_files/person_two/sec.asc'',
      MessageFromFile ''p1_armored_message.txt'', Decrypt, PrintStdout]"
  by (auto simp: new_calls_def decrypter_defs split: option.splits sum.splits prod.splits)

text \<open>A decrypting run reads two files and nothing else of the world.\<close>

lemma decrypter_main_reads_two_files:
  assumes "files w1 ''./key_files/person_two/sec.asc'' = files w2 ''./key_files/person_two/sec.asc''"
    and "files w1 ''p1_armored_message.txt'' = files w2 ''p1_armored_message.txt''"
  shows "fst (decrypter_main L w1) = fst (decrypter_main L w2)
     \<and> new_calls w1 (snd (decrypter_main L w1)) = new_calls w2 (snd (decrypter_main L w2))
     \<and> printed w1 (snd (decrypter_main L w1)) = printed w2 (snd (decrypter_main L w2))"
  using assms
  by (auto simp: new_calls_def printed_def decrypter_defs
      split: option.splits sum.splits prod.splits)

lemma decrypter_main_replace_others:
  "decrypter_main (replace_others g L) w = decrypter_main L w"
  by (auto simp: replace_others_def decrypter_defs
      split: option.splits sum.splits prod.splits)

text \<open>The encrypting script, in the same way.\<close>

lemma encrypter_main_ok:
  assumes "files w ''./key_files/pub.asc'' = Some kc"
    and "PGPKey_from_blob L kc = Inr (k, x)"
    and "PGPMessage_new L ''Secret message from python encoder script'' = Inr m"
    and "PGPKey_encrypt L (urandom w) k m = Inr c"
  shows "encrypter_main L w =
      (Inr (), w\<lparr>files := (files w)(''encrypted_message.txt'' \<mapsto> PGPMessage_str L c @ newline),
                 calls := calls w @ [KeyFromFile ''./key_files/pub.asc'',
                   MessageNew ''Secret message from python encoder script'', Encrypt,
                   OpenWrite ''encrypted_message.txt'', PrintFile ''encrypted_message.txt'']\<rparr>)"
  using assms by (simp add: encrypter_defs)

lemma encrypter_main_Inr:
  assumes "fst (encrypter_main L w) = Inr ()"
  shows "\<exists>kc k x m c. files w ''./key_files/pub.asc'' = Some kc
     \<and> PGPKey_from_blob L kc = Inr (k, x)
     \<and> PGPMessage_new L ''Secret message from python encoder script'' = Inr m
     \<and> PGPKey_encrypt L (urandom w) k m = Inr c"
  using assms
  by (auto simp: encrypter_defs split: option.splits sum.splits prod.splits)

lemma encrypter_main_encrypt_fails:
  assumes "files w ''./key_files/pub.asc'' = Some kc"
    and "PGPKey_from_blob L kc = Inr (k, x)"
    and "PGPMessage_new L ''Secret message from python encoder script'' = Inr m"
    and "PGPKey_encrypt L (urandom w) k m = Inl e"
  shows "encrypter_main L w =
      (Inl (LibraryError e),
       w\<lparr>calls := calls w @ [KeyFromFile ''./key_files/pub.asc'',
                   MessageNew ''Secret message from python encoder script'', Encrypt]\<rparr>)"
  using assms by (simp add: encrypter_defs)

lemma encrypter_main_bad_key:
  assumes "files w ''./key_files/pub.asc'' = Some kc"
    and "PGPKey_from_blob L kc = Inl e"
  shows "encrypter_main L w =
      (Inl (LibraryError e), w\<lparr>calls := calls w @ [KeyFromFile ''./key_files/pub.asc'']\<rparr>)"
  using assms by (simp add: encrypter_defs)

lemma encrypter_main_calls_prefix:
  "prefix (new_calls w (snd (encrypter_main L w)))
     [KeyFromFile ''./key_files/pub.asc'',
      MessageNew ''Secret message from python encoder script'', Encrypt,
      OpenWrite ''encrypted_message.txt'', PrintFile ''encrypted_message.txt'']"
  by (auto simp: new_calls_def encrypter_defs split: option.splits sum.splits prod.splits)

lemma encrypter_main_stdout: "stdout (snd (encrypter_main L w)) = stdout w"
  by (auto simp: encrypter_defs split: option.splits sum.splits prod.splits)

lemma encrypter_main_other_files:
  "p \<noteq> ''encrypted_message.txt'' \<Longrightarrow> files (snd (encrypter_main L w)) p = files w p"
  by (auto simp: encrypter_defs split: option.splits sum.splits prod.splits)


text \<open>The two decrypting mains are the same function of the library.\<close>

lemma encoder_as_decrypter: "encoder_main L = decrypter_main L"
  by (simp add: encoder_main_def decrypter_main_def
      encoder_pgp_msg_file_def decrypter_pgp_msg_file_def)

section \<open>One key, one message, one operation\<close>

text \<open>
  C1, as amended. In every run of a script in which each call returns, \<^verbatim>\<open>main\<close> makes
  exactly these calls, in this order: one key is loaded from the key file, one message is
  loaded (from the armored file by the two decrypting scripts, from the literal string by the
  encrypting one), one decrypt or encrypt operation is performed, and the result is printed
  (the text of the decrypted message and a newline) or written (the armored text and a
  newline, to \<^verbatim>\<open>encrypted_message.txt\<close>).
\<close>

theorem successful_run_calls:
  "(fst (decrypter_main L w) = Inr () \<longrightarrow>
      new_calls w (snd (decrypter_main L w)) =
        [KeyFromFile ''./key_files/person_two/sec.asc'',
         MessageFromFile ''p1_armored_message.txt'', Decrypt, PrintStdout]
      \<and> (\<exists>kc k x mc m d.
            files w ''./key_files/person_two/sec.asc'' = Some kc
          \<and> PGPKey_from_blob L kc = Inr (k, x)
          \<and> files w ''p1_armored_message.txt'' = Some mc
          \<and> PGPMessage_from_blob L mc = Inr m
          \<and> PGPKey_decrypt L k m = Inr d
          \<and> printed w (snd (decrypter_main L w)) = PGPMessage_message L d @ newline))
   \<and> (fst (encoder_main L w) = Inr () \<longrightarrow>
      new_calls w (snd (encoder_main L w)) =
        [KeyFromFile ''./key_files/person_two/sec.asc'',
         MessageFromFile ''p1_armored_message.txt'', Decrypt, PrintStdout]
      \<and> (\<exists>kc k x mc m d.
            files w ''./key_files/person_two/sec.asc'' = Some kc
          \<and> PGPKey_from_blob L kc = Inr (k, x)
          \<and> files w ''p1_armored_message.txt'' = Some mc
          \<and> PGPMessage_from_blob L mc = Inr m
          \<and> PGPKey_decrypt L k m = Inr d
          \<and> printed w (snd (encoder_main L w)) = PGPMessage_message L d @ newline))
   \<and> (fst (encrypter_main L w) = Inr () \<longrightarrow>
      new_calls w (snd (encrypter_main L w)) =
        [KeyFromFile ''./key_files/pub.asc'',
         MessageNew ''Secret message from python encoder script'', Encrypt,
         OpenWrite ''encrypted_message.txt'', PrintFile ''encrypted_message.txt'']
      \<and> (\<exists>kc k x m c.
            files w ''./key_files/pub.asc'' = Some kc
          \<and> PGPKey_from_blob L kc = Inr (k, x)
          \<and> PGPMessage_new L ''Secret message from python encoder script'' = Inr m
          \<and> PGPKey_encrypt L (urandom w) k m = Inr c
          \<and> files (snd (encrypter_main L w)) ''encrypted_message.txt''
               = Some (PGPMessage_str L c @ newline)))"
proof -
  have dec: "new_calls w (snd (decrypter_main L w)) =
        [KeyFromFile ''./key_files/person_two/sec.asc'',
         MessageFromFile ''p1_armored_message.txt'', Decrypt, PrintStdout]
      \<and> (\<exists>kc k x mc m d.
            files w ''./key_files/person_two/sec.asc'' = Some kc
          \<and> PGPKey_from_blob L kc = Inr (k, x)
          \<and> files w ''p1_armored_message.txt'' = Some mc
          \<and> PGPMessage_from_blob L mc = Inr m
          \<and> PGPKey_decrypt L k m = Inr d
          \<and> printed w (snd (decrypter_main L w)) = PGPMessage_message L d @ newline)"
    if ok: "fst (decrypter_main L w) = Inr ()"
  proof -
    from decrypter_main_Inr [OF ok] obtain kc k x mc m d where
      h: "files w ''./key_files/person_two/sec.asc'' = Some kc"
         "PGPKey_from_blob L kc = Inr (k, x)"
         "files w ''p1_armored_message.txt'' = Some mc"
         "PGPMessage_from_blob L mc = Inr m"
         "PGPKey_decrypt L k m = Inr d"
      by blast
    have run: "decrypter_main L w =
      (Inr (), w\<lparr>stdout := stdout w @ PGPMessage_message L d @ newline,
                 calls := calls w @ [KeyFromFile ''./key_files/person_two/sec.asc'',
                   MessageFromFile ''p1_armored_message.txt'', Decrypt, PrintStdout]\<rparr>)"
      by (rule decrypter_main_ok [OF h])
    have "new_calls w (snd (decrypter_main L w)) =
        [KeyFromFile ''./key_files/person_two/sec.asc'',
         MessageFromFile ''p1_armored_message.txt'', Decrypt, PrintStdout]"
      by (simp add: run new_calls_def)
    moreover have "printed w (snd (decrypter_main L w)) = PGPMessage_message L d @ newline"
      by (simp add: run printed_def)
    ultimately show ?thesis using h by blast
  qed
  have enc: "new_calls w (snd (encrypter_main L w)) =
        [KeyFromFile ''./key_files/pub.asc'',
         MessageNew ''Secret message from python encoder script'', Encrypt,
         OpenWrite ''encrypted_message.txt'', PrintFile ''encrypted_message.txt'']
      \<and> (\<exists>kc k x m c.
            files w ''./key_files/pub.asc'' = Some kc
          \<and> PGPKey_from_blob L kc = Inr (k, x)
          \<and> PGPMessage_new L ''Secret message from python encoder script'' = Inr m
          \<and> PGPKey_encrypt L (urandom w) k m = Inr c
          \<and> files (snd (encrypter_main L w)) ''encrypted_message.txt''
               = Some (PGPMessage_str L c @ newline))"
    if ok: "fst (encrypter_main L w) = Inr ()"
  proof -
    from encrypter_main_Inr [OF ok] obtain kc k x m c where
      h: "files w ''./key_files/pub.asc'' = Some kc"
         "PGPKey_from_blob L kc = Inr (k, x)"
         "PGPMessage_new L ''Secret message from python encoder script'' = Inr m"
         "PGPKey_encrypt L (urandom w) k m = Inr c"
      by blast
    note run = encrypter_main_ok [OF h]
    have "new_calls w (snd (encrypter_main L w)) =
        [KeyFromFile ''./key_files/pub.asc'',
         MessageNew ''Secret message from python encoder script'', Encrypt,
         OpenWrite ''encrypted_message.txt'', PrintFile ''encrypted_message.txt'']"
      by (simp add: run new_calls_def)
    moreover have "files (snd (encrypter_main L w)) ''encrypted_message.txt''
               = Some (PGPMessage_str L c @ newline)"
      by (simp add: run)
    ultimately show ?thesis using h by blast
  qed
  show ?thesis
    using dec enc unfolding encoder_as_decrypter by blast
qed

theorem successful_run_calls_witness:
  "fst (decrypter_main (spec_pgpy example_engine) (example_world ''KEY 2'' ''ARMORED 2 hello'')) = Inr ()
   \<and> new_calls (example_world ''KEY 2'' ''ARMORED 2 hello'')
        (snd (decrypter_main (spec_pgpy example_engine) (example_world ''KEY 2'' ''ARMORED 2 hello'')))
      = [KeyFromFile ''./key_files/person_two/sec.asc'',
         MessageFromFile ''p1_armored_message.txt'', Decrypt, PrintStdout]
   \<and> fst (encrypter_main (spec_pgpy example_engine) (example_world ''KEY 2'' ''ARMORED 2 hello'')) = Inr ()
   \<and> new_calls (example_world ''KEY 2'' ''ARMORED 2 hello'')
        (snd (encrypter_main (spec_pgpy example_engine) (example_world ''KEY 2'' ''ARMORED 2 hello'')))
      = [KeyFromFile ''./key_files/pub.asc'',
         MessageNew ''Secret message from python encoder script'', Encrypt,
         OpenWrite ''encrypted_message.txt'', PrintFile ''encrypted_message.txt'']"
proof -
  have d: "fst (decrypter_main (spec_pgpy example_engine)
              (example_world ''KEY 2'' ''ARMORED 2 hello'')) = Inr ()"
    by (simp add: decrypter_defs spec_pgpy_def example_engine_def example_world_def
        loadKey_def loadMessage_def decrypt_def)
  have e: "fst (encrypter_main (spec_pgpy example_engine)
              (example_world ''KEY 2'' ''ARMORED 2 hello'')) = Inr ()"
    by (simp add: encrypter_defs spec_pgpy_def example_engine_def example_world_def
        loadKey_def encrypt_def)
  show ?thesis
    using d e
      successful_run_calls [of "spec_pgpy example_engine"
        "example_world ''KEY 2'' ''ARMORED 2 hello''"]
    by blast
qed

text \<open>
  C1 as stated fails: in a world where the key file does not exist, \<^verbatim>\<open>main\<close> of the
  decrypting script stops at the first call with \<^verbatim>\<open>FileNotFoundError\<close>; no message is loaded,
  no decrypt operation is performed and nothing is printed.
\<close>

theorem run_without_key_file:
  "fst (decrypter_main (spec_pgpy example_engine) empty_world)
     = Inl (FileNotFoundError ''./key_files/person_two/sec.asc'')
   \<and> new_calls empty_world (snd (decrypter_main (spec_pgpy example_engine) empty_world))
     = [KeyFromFile ''./key_files/person_two/sec.asc'']
   \<and> Decrypt \<notin> set (new_calls empty_world
         (snd (decrypter_main (spec_pgpy example_engine) empty_world)))
   \<and> printed empty_world (snd (decrypter_main (spec_pgpy example_engine) empty_world)) = []"
  by (simp add: decrypter_main_no_key empty_world_def new_calls_def printed_def)

section \<open>The library's failures, as the specification gives them, reach the caller\<close>

lemmas spec_defs = spec_pgpy_def loadKey_def loadMessage_def encrypt_def decrypt_def
  can_decrypt_def

lemmas example_defs = example_engine_def example_world_def empty_world_def




text \<open>
  C3, as amended. \<open>encrypt\<close> fails with \<open>EncryptionError\<close> if the key has no
  encryption-capable subkey; it returns only for a key that has one, and what it returns
  then is the ciphertext, whose armored text the script writes. \<^verbatim>\<open>main\<close> of the encrypting
  script passes the failure on, this one and any other failure of \<open>encrypt\<close>: the run ends
  with the error and no file is changed.
\<close>

theorem encrypt_outcomes:
  "(\<not> has_encryption_subkey E k \<longrightarrow> encrypt E r k m = Inl EncryptionError)
   \<and> (\<forall>c. encrypt E r k m = Inr c \<longrightarrow> has_encryption_subkey E k \<and> seal E r k m = Inr c)
   \<and> (files w ''./key_files/pub.asc'' = Some kc \<and> parse_key E kc = Some k \<longrightarrow>
        (\<not> has_encryption_subkey E k \<longrightarrow>
            fst (encrypter_main (spec_pgpy E) w) = Inl (LibraryError EncryptionError)
          \<and> files (snd (encrypter_main (spec_pgpy E) w)) = files w)
      \<and> (\<forall>e. encrypt E (urandom w) k
                (literal E ''Secret message from python encoder script'') = Inl e \<longrightarrow>
            fst (encrypter_main (spec_pgpy E) w) = Inl (LibraryError e)
          \<and> files (snd (encrypter_main (spec_pgpy E) w)) = files w)
      \<and> (\<forall>c. encrypt E (urandom w) k
                (literal E ''Secret message from python encoder script'') = Inr c \<longrightarrow>
            fst (encrypter_main (spec_pgpy E) w) = Inr ()
          \<and> files (snd (encrypter_main (spec_pgpy E) w))
              = (files w)(''encrypted_message.txt'' \<mapsto> armor E c @ newline)))"
proof -
  have lib: "\<not> has_encryption_subkey E k \<longrightarrow> encrypt E r k m = Inl EncryptionError"
    "\<forall>c. encrypt E r k m = Inr c \<longrightarrow> has_encryption_subkey E k \<and> seal E r k m = Inr c"
    by (auto simp: encrypt_def split: if_splits)
  have run: "(\<not> has_encryption_subkey E k \<longrightarrow>
            fst (encrypter_main (spec_pgpy E) w) = Inl (LibraryError EncryptionError)
          \<and> files (snd (encrypter_main (spec_pgpy E) w)) = files w)
      \<and> (\<forall>e. encrypt E (urandom w) k
                (literal E ''Secret message from python encoder script'') = Inl e \<longrightarrow>
            fst (encrypter_main (spec_pgpy E) w) = Inl (LibraryError e)
          \<and> files (snd (encrypter_main (spec_pgpy E) w)) = files w)
      \<and> (\<forall>c. encrypt E (urandom w) k
                (literal E ''Secret message from python encoder script'') = Inr c \<longrightarrow>
            fst (encrypter_main (spec_pgpy E) w) = Inr ()
          \<and> files (snd (encrypter_main (spec_pgpy E) w))
              = (files w)(''encrypted_message.txt'' \<mapsto> armor E c @ newline))"
    if h: "files w ''./key_files/pub.asc'' = Some kc" "parse_key E kc = Some k"
  proof -
    have pk: "PGPKey_from_blob (spec_pgpy E) kc = Inr (k, ())"
      using h by (simp add: spec_pgpy_def loadKey_def)
    have pn: "PGPMessage_new (spec_pgpy E) ''Secret message from python encoder script''
        = Inr (literal E ''Secret message from python encoder script'')"
      by (simp add: spec_pgpy_def)
    have pe: "PGPKey_encrypt (spec_pgpy E) (urandom w) k
          (literal E ''Secret message from python encoder script'')
        = encrypt E (urandom w) k (literal E ''Secret message from python encoder script'')"
      by (simp add: spec_pgpy_def)
    have bad: "fst (encrypter_main (spec_pgpy E) w) = Inl (LibraryError e)
          \<and> files (snd (encrypter_main (spec_pgpy E) w)) = files w"
      if e: "encrypt E (urandom w) k
          (literal E ''Secret message from python encoder script'') = Inl e" for e
      using encrypter_main_encrypt_fails [OF h(1) pk pn, of e] e pe by simp
    have good: "fst (encrypter_main (spec_pgpy E) w) = Inr ()
          \<and> files (snd (encrypter_main (spec_pgpy E) w))
              = (files w)(''encrypted_message.txt'' \<mapsto> armor E c @ newline)"
      if c: "encrypt E (urandom w) k
          (literal E ''Secret message from python encoder script'') = Inr c" for c
      using encrypter_main_ok [OF h(1) pk pn, of c] c pe by (simp add: spec_pgpy_def)
    have none: "encrypt E (urandom w) k
          (literal E ''Secret message from python encoder script'') = Inl EncryptionError"
      if "\<not> has_encryption_subkey E k"
      using that by (simp add: encrypt_def)
    show ?thesis using bad good none by blast
  qed
  show ?thesis using lib run by blast
qed

theorem encrypt_outcomes_witness:
  "\<not> has_encryption_subkey example_engine 0
   \<and> encrypt example_engine 0 0 (0, 0, ''text'') = Inl EncryptionError
   \<and> fst (encrypter_main (spec_pgpy example_engine) (example_world ''KEY 0'' ''old''))
       = Inl (LibraryError EncryptionError)
   \<and> files (snd (encrypter_main (spec_pgpy example_engine) (example_world ''KEY 0'' ''old'')))
       = files (example_world ''KEY 0'' ''old'')
   \<and> fst (encrypter_main (spec_pgpy example_engine) (example_world ''KEY 2'' ''old'')) = Inr ()
   \<and> files (snd (encrypter_main (spec_pgpy example_engine) (example_world ''KEY 2'' ''old'')))
        ''encrypted_message.txt''
       = Some (''ARMORED 2 Secret message from python encoder script'' @ newline)"
proof -
  have a: "\<not> has_encryption_subkey example_engine 0"
    by (simp add: example_engine_def)
  have b: "files (example_world ''KEY 0'' ''old'') ''./key_files/pub.asc'' = Some ''KEY 0''"
    "files (example_world ''KEY 2'' ''old'') ''./key_files/pub.asc'' = Some ''KEY 2''"
    by (simp_all add: example_world_def)
  have c: "parse_key example_engine ''KEY 0'' = Some 0"
    "parse_key example_engine ''KEY 2'' = Some 2"
    by (simp_all add: example_engine_def)
  have d: "encrypt example_engine (urandom (example_world ''KEY 2'' ''old'')) 2
      (literal example_engine ''Secret message from python encoder script'')
      = Inr (2, 0, ''Secret message from python encoder script'')"
    by (simp add: encrypt_def example_engine_def example_world_def)
  have e: "armor example_engine (2, 0, ''Secret message from python encoder script'')
      = ''ARMORED 2 Secret message from python encoder script''"
    by (simp add: example_engine_def)
  have f: "files (snd (encrypter_main (spec_pgpy example_engine) (example_world ''KEY 2'' ''old'')))
          = (files (example_world ''KEY 2'' ''old''))(''encrypted_message.txt'' \<mapsto>
              armor example_engine (2, 0, ''Secret message from python encoder script'')
                @ newline)
      \<and> fst (encrypter_main (spec_pgpy example_engine) (example_world ''KEY 2'' ''old''))
          = Inr ()"
    using b c d
      encrypt_outcomes [of example_engine 2 0 "(0, 0, ''text'')" "example_world ''KEY 2'' ''old''"
        "''KEY 2''"]
    by blast
  have g: "\<not> has_encryption_subkey example_engine 0
   \<and> encrypt example_engine 0 0 (0, 0, ''text'') = Inl EncryptionError
   \<and> fst (encrypter_main (spec_pgpy example_engine) (example_world ''KEY 0'' ''old''))
       = Inl (LibraryError EncryptionError)
   \<and> files (snd (encrypter_main (spec_pgpy example_engine) (example_world ''KEY 0'' ''old'')))
       = files (example_world ''KEY 0'' ''old'')"
    using a b c
      encrypt_outcomes [of example_engine 0 0 "(0, 0, ''text'')" "example_world ''KEY 0'' ''old''"
        "''KEY 0''"]
    by blast
  show ?thesis using f g e by simp
qed

text \<open>
  C3 as stated fails: key 4 has an encryption-capable subkey, and \<open>encrypt\<close> with it fails
  with \<open>EncryptionError\<close> all the same, so that error is not only that of a key without such
  a subkey, and no armored ciphertext is returned; the script ends with the error and writes
  no file.
\<close>

theorem encrypt_refuses_key_with_subkey:
  "has_encryption_subkey example_engine 4
   \<and> encrypt example_engine 0 4 (0, 0, ''Secret message from python encoder script'')
       = Inl EncryptionError
   \<and> fst (encrypter_main (spec_pgpy example_engine) (example_world ''KEY 4'' ''old''))
       = Inl (LibraryError EncryptionError)
   \<and> files (snd (encrypter_main (spec_pgpy example_engine) (example_world ''KEY 4'' ''old'')))
        ''encrypted_message.txt'' = None"
  by (simp add: encrypter_defs spec_defs example_defs)

text \<open>
  C4. \<open>loadKey\<close> parses the content of the file as a key: it fails with \<open>KeyFormatError\<close>
  whenever the content is malformed as a key and has no other failure, and a call that
  succeeds returns the key handle parsed from the content. So does \<^verbatim>\<open>PGPKey.from_file\<close> on
  every path that holds a file, with the key handle as the first component of its result,
  and each script ends with \<open>KeyFormatError\<close> when its key file is malformed.
\<close>

theorem loadKey_outcomes:
  "(parse_key E c = None \<longrightarrow> loadKey E c = Inl KeyFormatError)
   \<and> (\<forall>e. loadKey E c = Inl e \<longrightarrow> e = KeyFormatError \<and> parse_key E c = None)
   \<and> (\<forall>k. (loadKey E c = Inr k) = (parse_key E c = Some k))
   \<and> (files w p = Some c \<longrightarrow>
        (parse_key E c = None \<longrightarrow>
           fst (key_from_file (spec_pgpy E) p w) = Inl (LibraryError KeyFormatError))
      \<and> (\<forall>k. parse_key E c = Some k \<longrightarrow>
           fst (key_from_file (spec_pgpy E) p w) = Inr (k, ())))
   \<and> (files w ''./key_files/person_two/sec.asc'' = Some c \<and> parse_key E c = None \<longrightarrow>
        fst (decrypter_main (spec_pgpy E) w) = Inl (LibraryError KeyFormatError)
      \<and> fst (encoder_main (spec_pgpy E) w) = Inl (LibraryError KeyFormatError))
   \<and> (files w ''./key_files/pub.asc'' = Some c \<and> parse_key E c = None \<longrightarrow>
        fst (encrypter_main (spec_pgpy E) w) = Inl (LibraryError KeyFormatError))"
proof -
  have lib: "parse_key E c = None \<longrightarrow> loadKey E c = Inl KeyFormatError"
    "\<forall>e. loadKey E c = Inl e \<longrightarrow> e = KeyFormatError \<and> parse_key E c = None"
    "\<forall>k. (loadKey E c = Inr k) = (parse_key E c = Some k)"
    by (auto simp: loadKey_def split: option.splits)
  have op: "files w p = Some c \<longrightarrow>
        (parse_key E c = None \<longrightarrow>
           fst (key_from_file (spec_pgpy E) p w) = Inl (LibraryError KeyFormatError))
      \<and> (\<forall>k. parse_key E c = Some k \<longrightarrow>
           fst (key_from_file (spec_pgpy E) p w) = Inr (k, ()))"
    by (simp add: key_from_file_def lift_def spec_pgpy_def loadKey_def)
  have bad: "PGPKey_from_blob (spec_pgpy E) c = Inl KeyFormatError" if "parse_key E c = None"
    using that by (simp add: spec_pgpy_def loadKey_def)
  have dec: "files w ''./key_files/person_two/sec.asc'' = Some c \<and> parse_key E c = None \<longrightarrow>
        fst (decrypter_main (spec_pgpy E) w) = Inl (LibraryError KeyFormatError)"
    using decrypter_main_bad_key [of w c "spec_pgpy E" KeyFormatError] bad by simp
  have enc: "files w ''./key_files/pub.asc'' = Some c \<and> parse_key E c = None \<longrightarrow>
        fst (encrypter_main (spec_pgpy E) w) = Inl (LibraryError KeyFormatError)"
    using encrypter_main_bad_key [of w c "spec_pgpy E" KeyFormatError] bad by simp
  show ?thesis
    unfolding encoder_as_decrypter
    using lib op dec enc by blast
qed

theorem loadKey_outcomes_witness:
  "parse_key example_engine ''not a key'' = None
   \<and> loadKey example_engine ''not a key'' = Inl KeyFormatError
   \<and> fst (key_from_file (spec_pgpy example_engine) ''./key_files/pub.asc''
        (example_world ''not a key'' ''old'')) = Inl (LibraryError KeyFormatError)
   \<and> fst (decrypter_main (spec_pgpy example_engine) (example_world ''not a key'' ''old''))
       = Inl (LibraryError KeyFormatError)
   \<and> fst (encrypter_main (spec_pgpy example_engine) (example_world ''not a key'' ''old''))
       = Inl (LibraryError KeyFormatError)
   \<and> loadKey example_engine ''KEY 2'' = Inr 2"
proof -
  have a: "parse_key example_engine ''not a key'' = None"
    "parse_key example_engine ''KEY 2'' = Some 2"
    by (simp_all add: example_engine_def)
  have b: "files (example_world ''not a key'' ''old'') ''./key_files/pub.asc''
      = Some ''not a key''"
    "files (example_world ''not a key'' ''old'') ''./key_files/person_two/sec.asc''
      = Some ''not a key''"
    by (simp_all add: example_world_def)
  show ?thesis
    using a b
      loadKey_outcomes [of example_engine "''not a key''"
        "example_world ''not a key'' ''old''" "''./key_files/pub.asc''"]
      loadKey_outcomes [of example_engine "''KEY 2''"
        "example_world ''not a key'' ''old''" "''./key_files/pub.asc''"]
    by blast
qed

text \<open>
  C5. \<open>loadMessage\<close> parses the content of the file as an armored ciphertext: it fails with
  \<open>MessageFormatError\<close> whenever the content is malformed as a message and has no other
  failure, and a call that succeeds returns the message handle parsed from the content. So
  does \<^verbatim>\<open>PGPMessage.from_file\<close> on every path that holds a file, and each decrypting script
  whose key file is well-formed ends with \<open>MessageFormatError\<close> when its message file is
  malformed.
\<close>

theorem loadMessage_outcomes:
  "(parse_message E c = None \<longrightarrow> loadMessage E c = Inl MessageFormatError)
   \<and> (\<forall>e. loadMessage E c = Inl e \<longrightarrow> e = MessageFormatError \<and> parse_message E c = None)
   \<and> (\<forall>m. (loadMessage E c = Inr m) = (parse_message E c = Some m))
   \<and> (files w p = Some c \<longrightarrow>
        (parse_message E c = None \<longrightarrow>
           fst (message_from_file (spec_pgpy E) p w) = Inl (LibraryError MessageFormatError))
      \<and> (\<forall>m. parse_message E c = Some m \<longrightarrow>
           fst (message_from_file (spec_pgpy E) p w) = Inr m))
   \<and> (files w ''./key_files/person_two/sec.asc'' = Some kc \<and> parse_key E kc = Some k
        \<and> files w ''p1_armored_message.txt'' = Some c \<and> parse_message E c = None \<longrightarrow>
        fst (decrypter_main (spec_pgpy E) w) = Inl (LibraryError MessageFormatError)
      \<and> fst (encoder_main (spec_pgpy E) w) = Inl (LibraryError MessageFormatError))"
proof -
  have lib: "parse_message E c = None \<longrightarrow> loadMessage E c = Inl MessageFormatError"
    "\<forall>e. loadMessage E c = Inl e \<longrightarrow> e = MessageFormatError \<and> parse_message E c = None"
    "\<forall>m. (loadMessage E c = Inr m) = (parse_message E c = Some m)"
    by (auto simp: loadMessage_def split: option.splits)
  have op: "files w p = Some c \<longrightarrow>
        (parse_message E c = None \<longrightarrow>
           fst (message_from_file (spec_pgpy E) p w) = Inl (LibraryError MessageFormatError))
      \<and> (\<forall>m. parse_message E c = Some m \<longrightarrow>
           fst (message_from_file (spec_pgpy E) p w) = Inr m)"
    by (simp add: message_from_file_def lift_def spec_pgpy_def loadMessage_def)
  have dec: "fst (decrypter_main (spec_pgpy E) w) = Inl (LibraryError MessageFormatError)"
    if h: "files w ''./key_files/person_two/sec.asc'' = Some kc" "parse_key E kc = Some k"
      "files w ''p1_armored_message.txt'' = Some c" "parse_message E c = None"
  proof -
    have pk: "PGPKey_from_blob (spec_pgpy E) kc = Inr (k, ())"
      using h by (simp add: spec_pgpy_def loadKey_def)
    have pm: "PGPMessage_from_blob (spec_pgpy E) c = Inl MessageFormatError"
      using h by (simp add: spec_pgpy_def loadMessage_def)
    from decrypter_main_bad_message [OF h(1) pk h(3) pm] show ?thesis by simp
  qed
  show ?thesis
    unfolding encoder_as_decrypter
    using lib op dec by blast
qed

theorem loadMessage_outcomes_witness:
  "parse_message example_engine ''not a message'' = None
   \<and> loadMessage example_engine ''not a message'' = Inl MessageFormatError
   \<and> fst (message_from_file (spec_pgpy example_engine) ''p1_armored_message.txt''
        (example_world ''KEY 2'' ''not a message'')) = Inl (LibraryError MessageFormatError)
   \<and> fst (decrypter_main (spec_pgpy example_engine) (example_world ''KEY 2'' ''not a message''))
       = Inl (LibraryError MessageFormatError)
   \<and> loadMessage example_engine ''ARMORED 2 hello'' = Inr (2, 0, ''hello'')"
proof -
  have a: "parse_message example_engine ''not a message'' = None"
    "parse_message example_engine ''ARMORED 2 hello'' = Some (2, 0, ''hello'')"
    "parse_key example_engine ''KEY 2'' = Some 2"
    by (simp_all add: example_engine_def)
  have b: "files (example_world ''KEY 2'' ''not a message'') ''p1_armored_message.txt''
      = Some ''not a message''"
    "files (example_world ''KEY 2'' ''not a message'') ''./key_files/person_two/sec.asc''
      = Some ''KEY 2''"
    by (simp_all add: example_world_def)
  show ?thesis
    using a b
      loadMessage_outcomes [of example_engine "''not a message''"
        "example_world ''KEY 2'' ''not a message''" "''p1_armored_message.txt''" "''KEY 2''" 2]
      loadMessage_outcomes [of example_engine "''ARMORED 2 hello''"
        "example_world ''KEY 2'' ''not a message''" "''p1_armored_message.txt''" "''KEY 2''" 2]
    by blast
qed

section \<open>Three library calls in a row\<close>








section \<open>The token workflow is never run\<close>

text \<open>
  C7. No run of any of the three scripts performs the workflow of the commented-out
  function: the file \<^verbatim>\<open>ep.pgp\<close> is never written (its content after the run is its content
  before), it is never opened for writing, printed to or loaded as a message, the key
  \<^verbatim>\<open>private.key\<close> is never loaded, and \<^verbatim>\<open>json.loads\<close> is never called.
\<close>

theorem token_workflow_never_run:
  "files (snd (decrypter_main L w)) ''ep.pgp'' = files w ''ep.pgp''
   \<and> files (snd (encoder_main L w)) ''ep.pgp'' = files w ''ep.pgp''
   \<and> files (snd (encrypter_main L w)) ''ep.pgp'' = files w ''ep.pgp''
   \<and> set (new_calls w (snd (decrypter_main L w))) \<inter>
       {OpenWrite ''ep.pgp'', PrintFile ''ep.pgp'', MessageFromFile ''ep.pgp'',
        KeyFromFile ''private.key'', JsonLoads} = {}
   \<and> set (new_calls w (snd (encoder_main L w))) \<inter>
       {OpenWrite ''ep.pgp'', PrintFile ''ep.pgp'', MessageFromFile ''ep.pgp'',
        KeyFromFile ''private.key'', JsonLoads} = {}
   \<and> set (new_calls w (snd (encrypter_main L w))) \<inter>
       {OpenWrite ''ep.pgp'', PrintFile ''ep.pgp'', MessageFromFile ''ep.pgp'',
        KeyFromFile ''private.key'', JsonLoads} = {}"
proof -
  have d: "set (new_calls w (snd (decrypter_main L w))) \<subseteq>
      set [KeyFromFile ''./key_files/person_two/sec.asc'',
           MessageFromFile ''p1_armored_message.txt'', Decrypt, PrintStdout]"
    by (rule set_mono_prefix [OF decrypter_main_calls_prefix])
  have e: "set (new_calls w (snd (encrypter_main L w))) \<subseteq>
      set [KeyFromFile ''./key_files/pub.asc'',
           MessageNew ''Secret message from python encoder script'', Encrypt,
           OpenWrite ''encrypted_message.txt'', PrintFile ''encrypted_message.txt'']"
    by (rule set_mono_prefix [OF encrypter_main_calls_prefix])
  have d': "set (new_calls w (snd (decrypter_main L w))) \<inter>
       {OpenWrite ''ep.pgp'', PrintFile ''ep.pgp'', MessageFromFile ''ep.pgp'',
        KeyFromFile ''private.key'', JsonLoads} = {}"
    using d by auto
  have e': "set (new_calls w (snd (encrypter_main L w))) \<inter>
       {OpenWrite ''ep.pgp'', PrintFile ''ep.pgp'', MessageFromFile ''ep.pgp'',
        KeyFromFile ''private.key'', JsonLoads} = {}"
    using e by auto
  have f: "files (snd (encrypter_main L w)) ''ep.pgp'' = files w ''ep.pgp''"
    by (rule encrypter_main_other_files) simp
  show ?thesis
    unfolding encoder_as_decrypter
    using d' e' f by (simp add: decrypter_main_files)
qed

section \<open>Which files a run writes\<close>

text \<open>
  C9. A run of the encrypting script that ends well changes one file and nothing else: the
  files after the run are the files before it with \<^verbatim>\<open>encrypted_message.txt\<close> holding the
  armored text of the ciphertext and a newline, whatever it held before; nothing goes to the
  standard output. The two decrypting scripts leave every file as it is in every run; their
  output, in a run that ends well, is what they print.
\<close>

theorem files_written:
  "(fst (encrypter_main L w) = Inr () \<longrightarrow>
      stdout (snd (encrypter_main L w)) = stdout w
      \<and> (\<exists>kc k x m c.
            files w ''./key_files/pub.asc'' = Some kc
          \<and> PGPKey_from_blob L kc = Inr (k, x)
          \<and> PGPMessage_new L ''Secret message from python encoder script'' = Inr m
          \<and> PGPKey_encrypt L (urandom w) k m = Inr c
          \<and> files (snd (encrypter_main L w))
               = (files w)(''encrypted_message.txt'' \<mapsto> PGPMessage_str L c @ newline)))
   \<and> files (snd (decrypter_main L w)) = files w
   \<and> files (snd (encoder_main L w)) = files w
   \<and> (fst (decrypter_main L w) = Inr () \<longrightarrow> printed w (snd (decrypter_main L w)) \<noteq> [])
   \<and> (fst (encoder_main L w) = Inr () \<longrightarrow> printed w (snd (encoder_main L w)) \<noteq> [])"
proof -
  have enc: "\<exists>kc k x m c.
            files w ''./key_files/pub.asc'' = Some kc
          \<and> PGPKey_from_blob L kc = Inr (k, x)
          \<and> PGPMessage_new L ''Secret message from python encoder script'' = Inr m
          \<and> PGPKey_encrypt L (urandom w) k m = Inr c
          \<and> files (snd (encrypter_main L w))
               = (files w)(''encrypted_message.txt'' \<mapsto> PGPMessage_str L c @ newline)"
    if ok: "fst (encrypter_main L w) = Inr ()"
  proof -
    from encrypter_main_Inr [OF ok] obtain kc k x m c where
      h: "files w ''./key_files/pub.asc'' = Some kc"
         "PGPKey_from_blob L kc = Inr (k, x)"
         "PGPMessage_new L ''Secret message from python encoder script'' = Inr m"
         "PGPKey_encrypt L (urandom w) k m = Inr c"
      by blast
    have "files (snd (encrypter_main L w))
               = (files w)(''encrypted_message.txt'' \<mapsto> PGPMessage_str L c @ newline)"
      by (simp add: encrypter_main_ok [OF h])
    then show ?thesis using h by blast
  qed
  have dec: "printed w (snd (decrypter_main L w)) \<noteq> []"
    if ok: "fst (decrypter_main L w) = Inr ()"
  proof -
    from decrypter_main_Inr [OF ok] obtain kc k x mc m d where
      h: "files w ''./key_files/person_two/sec.asc'' = Some kc"
         "PGPKey_from_blob L kc = Inr (k, x)"
         "files w ''p1_armored_message.txt'' = Some mc"
         "PGPMessage_from_blob L mc = Inr m"
         "PGPKey_decrypt L k m = Inr d"
      by blast
    show ?thesis by (simp add: decrypter_main_ok [OF h] printed_def newline_def)
  qed
  show ?thesis
    unfolding encoder_as_decrypter
    using enc dec by (simp add: decrypter_main_files encrypter_main_stdout)
qed

theorem files_written_witness:
  "fst (encrypter_main (spec_pgpy example_engine) (example_world ''KEY 2'' ''old'')) = Inr ()
   \<and> files (snd (encrypter_main (spec_pgpy example_engine) (example_world ''KEY 2'' ''old'')))
        ''encrypted_message.txt''
      = Some (''ARMORED 2 Secret message from python encoder script'' @ newline)
   \<and> fst (decrypter_main (spec_pgpy example_engine)
        (example_world ''KEY 2'' ''ARMORED 2 hello'')) = Inr ()
   \<and> printed (example_world ''KEY 2'' ''ARMORED 2 hello'')
        (snd (decrypter_main (spec_pgpy example_engine)
           (example_world ''KEY 2'' ''ARMORED 2 hello''))) \<noteq> []"
proof -
  have e: "fst (encrypter_main (spec_pgpy example_engine) (example_world ''KEY 2'' ''old'')) = Inr ()"
    by (simp add: encrypter_defs spec_pgpy_def example_engine_def example_world_def
        loadKey_def encrypt_def)
  have d: "fst (decrypter_main (spec_pgpy example_engine)
              (example_world ''KEY 2'' ''ARMORED 2 hello'')) = Inr ()"
    by (simp add: decrypter_defs spec_pgpy_def example_engine_def example_world_def
        loadKey_def loadMessage_def decrypt_def)
  have c: "files (snd (encrypter_main (spec_pgpy example_engine) (example_world ''KEY 2'' ''old'')))
        ''encrypted_message.txt''
      = Some (''ARMORED 2 Secret message from python encoder script'' @ newline)"
    by (simp add: encrypter_defs spec_pgpy_def example_engine_def example_world_def
        loadKey_def encrypt_def)
  show ?thesis
    using e d c
      files_written [of "spec_pgpy example_engine" "example_world ''KEY 2'' ''old''"]
      files_written [of "spec_pgpy example_engine" "example_world ''KEY 2'' ''ARMORED 2 hello''"]
    by blast
qed

section \<open>The decrypting scripts are deterministic\<close>

text \<open>
  C10. Two runs of a decrypting script in worlds that agree on the content of the
  secret-key file and of the armored-message file end with the same result and print the
  same text. Of the pair that \<^verbatim>\<open>PGPKey.from_file\<close> returns, only the first component is
  used: a library that returns anything else as the second component gives the same run.
\<close>

theorem decrypters_deterministic:
  "(files w1 ''./key_files/person_two/sec.asc'' = files w2 ''./key_files/person_two/sec.asc''
      \<and> files w1 ''p1_armored_message.txt'' = files w2 ''p1_armored_message.txt'' \<longrightarrow>
        fst (decrypter_main L w1) = fst (decrypter_main L w2)
      \<and> printed w1 (snd (decrypter_main L w1)) = printed w2 (snd (decrypter_main L w2))
      \<and> fst (encoder_main L w1) = fst (encoder_main L w2)
      \<and> printed w1 (snd (encoder_main L w1)) = printed w2 (snd (encoder_main L w2)))
   \<and> decrypter_main (replace_others g L) w = decrypter_main L w
   \<and> encoder_main (replace_others g L) w = encoder_main L w"
  unfolding encoder_as_decrypter
  using decrypter_main_reads_two_files [of w1 w2 L]
  by (simp add: decrypter_main_replace_others)

theorem decrypters_deterministic_witness:
  "printed ((example_world ''KEY 2'' ''ARMORED 2 hello'')\<lparr>stdout := ''earlier output''\<rparr>)
        (snd (decrypter_main (spec_pgpy example_engine)
          ((example_world ''KEY 2'' ''ARMORED 2 hello'')\<lparr>stdout := ''earlier output''\<rparr>)))
      = printed (example_world ''KEY 2'' ''ARMORED 2 hello'')
        (snd (decrypter_main (spec_pgpy example_engine) (example_world ''KEY 2'' ''ARMORED 2 hello'')))
   \<and> printed (example_world ''KEY 2'' ''ARMORED 2 hello'')
        (snd (decrypter_main (spec_pgpy example_engine) (example_world ''KEY 2'' ''ARMORED 2 hello'')))
      = ''hello'' @ newline"
proof -
  have f: "files ((example_world ''KEY 2'' ''ARMORED 2 hello'')\<lparr>stdout := ''earlier output''\<rparr>) p
      = files (example_world ''KEY 2'' ''ARMORED 2 hello'') p"
    for p by simp
  have v: "printed (example_world ''KEY 2'' ''ARMORED 2 hello'')
        (snd (decrypter_main (spec_pgpy example_engine) (example_world ''KEY 2'' ''ARMORED 2 hello'')))
      = ''hello'' @ newline"
    by (simp add: decrypter_defs spec_pgpy_def example_engine_def example_world_def
        loadKey_def loadMessage_def decrypt_def printed_def)
  show ?thesis
    using f v
      decrypters_deterministic
        [of "(example_world ''KEY 2'' ''ARMORED 2 hello'')\<lparr>stdout := ''earlier output''\<rparr>"
            "example_world ''KEY 2'' ''ARMORED 2 hello''" "spec_pgpy example_engine"]
    by metis
qed

section \<open>The two decrypting scripts are the same program\<close>

text \<open>
  C8. \<^verbatim>\<open>main\<close> of \<^verbatim>\<open>pgp_encoder.py\<close> and \<^verbatim>\<open>main\<close> of
  \<^verbatim>\<open>keys_from_files/pgp_decrypter.py\<close> behave alike: in any world (so with the same content
  of \<^verbatim>\<open>./key_files/person_two/sec.asc\<close> and of \<^verbatim>\<open>p1_armored_message.txt\<close>) and with any
  library, they make the same calls, end with the same result and print the same text.
\<close>

theorem encoder_main_eq_decrypter_main:
  "encoder_main L w = decrypter_main L w"
  by (simp add: encoder_main_def decrypter_main_def
      encoder_pgp_msg_file_def decrypter_pgp_msg_file_def)

end
